theory Spec2Isabelle
  imports Complex_Main "HOL-Library.Char_ord" "HOL-Library.List_Lexorder"
    "HOL-Library.Product_Lexorder"
begin

section \<open>The job-market dashboard of \<^verbatim>\<open>src/app.py\<close>\<close>

text \<open>
  The script loads the postings of one metropolitan area (MSA) from a columnar file,
  normalises a few columns, narrows the rows by the sidebar's filters and derives the
  summary tables behind the charts. A pandas data frame is modelled as the list of its
  column names together with the list of its rows, in order; a nullable cell is an
  \<open>option\<close>; a float cell is a \<open>real\<close> (NaN is \<open>None\<close>); an
  exception is the \<open>Inl\<close> of a sum.
\<close>

subsection \<open>Data model\<close>

datatype error = ValueError | SyntaxError

text \<open>
  A cell of one of the four skill columns. The file stores the text of a list literal
  (\<open>Text\<close>) or nothing (\<open>Null\<close>); after \<^verbatim>\<open>load_msa_data\<close> it holds a decoded
  sequence of strings (\<open>Seq\<close>).
\<close>

datatype cell = Null | Text string | Seq "string list"

record posting =
  TITLE_NAME :: "string option"
  SALARY_FROM :: "real option"
  SALARY_TO :: "real option"
  MIN_YEARS_EXPERIENCE :: "real option"
  MAX_YEARS_EXPERIENCE :: "real option"
  SKILLS_NAME :: cell
  EMPLOYMENT_TYPE_NAME :: "string option"
  REMOTE_TYPE_NAME :: "string option"
  COMPANY_NAME :: "string option"
  MIN_EDULEVELS_NAME :: "string option"
  SOC_2021_5_NAME :: "string option"
  NAICS2_NAME :: "string option"
  NAICS4_NAME :: "string option"
  NAICS6_NAME :: "string option"
  SPECIALIZED_SKILLS_NAME :: cell
  CERTIFICATIONS_NAME :: cell
  COMMON_SKILLS_NAME :: cell
  MSA_NAME :: "string option"
  Average_Salary :: "real option"

text \<open>
  \<open>Average_Salary\<close> is the column that line 116 adds; it is part of a frame only when
  its name is among the frame's \<open>columns\<close>, and is \<open>None\<close> in every row before.
\<close>

record frame =
  columns :: "string list"
  rows :: "posting list"

definition columns_needed :: "string list" where
  "columns_needed =
     [''TITLE_NAME'', ''SALARY_FROM'', ''SALARY_TO'', ''MIN_YEARS_EXPERIENCE'',
      ''MAX_YEARS_EXPERIENCE'', ''SKILLS_NAME'', ''EMPLOYMENT_TYPE_NAME'',
      ''REMOTE_TYPE_NAME'', ''COMPANY_NAME'', ''MIN_EDULEVELS_NAME'', ''SOC_2021_5_NAME'',
      ''NAICS2_NAME'', ''NAICS4_NAME'', ''NAICS6_NAME'', ''SPECIALIZED_SKILLS_NAME'',
      ''CERTIFICATIONS_NAME'', ''COMMON_SKILLS_NAME'', ''MSA_NAME'']"

subsection \<open>Loading one MSA and cleaning the skill columns (lines 26 to 42)\<close>

text \<open>
  Line 40 applies \<^verbatim>\<open>lambda x: ast.literal_eval(x) if pd.notnull(x) else []\<close> to every
  cell. \<^verbatim>\<open>pd.notnull\<close> of \<^verbatim>\<open>None\<close> is \<^verbatim>\<open>False\<close> and of a string is
  \<^verbatim>\<open>True\<close>; of a list it is an array with one boolean per element, and the
  conditional asks for that array's truth value: an array of two or more elements raises
  \<^verbatim>\<open>ValueError\<close>, an array of one element has the truth value of the element (a
  string is not null), and the truth value of the empty array is \<^verbatim>\<open>False\<close> in NumPy
  before 2.2 and a \<^verbatim>\<open>ValueError\<close> from 2.2 on. The last is the parameter
  \<open>empty_truth\<close>.
\<close>

definition notnull_truth :: "error + bool \<Rightarrow> cell \<Rightarrow> error + bool" where
  "notnull_truth empty_truth x =
     (case x of
        Null \<Rightarrow> Inr False
      | Text s \<Rightarrow> Inr True
      | Seq xs \<Rightarrow>
          (case xs of
             [] \<Rightarrow> empty_truth
           | [y] \<Rightarrow> Inr True
           | y # z # zs \<Rightarrow> Inl ValueError))"

text \<open>
  \<^verbatim>\<open>ast.literal_eval\<close> belongs to Python's library: on a string it is the parameter
  \<open>literal_eval\<close>; on anything that is neither a string nor a syntax node it raises
  \<^verbatim>\<open>ValueError\<close> (malformed node or string).
\<close>

definition clean_cell ::
  "(string \<Rightarrow> error + cell) \<Rightarrow> error + bool \<Rightarrow> cell \<Rightarrow> error + cell" where
  "clean_cell literal_eval empty_truth x =
     (case notnull_truth empty_truth x of
        Inl e \<Rightarrow> Inl e
      | Inr True \<Rightarrow> (case x of Text s \<Rightarrow> literal_eval s | _ \<Rightarrow> Inl ValueError)
      | Inr False \<Rightarrow> Inr (Seq []))"

text \<open>\<^verbatim>\<open>df[col].apply(f)\<close>: the cells from the first row on; the first exception ends it.\<close>

fun apply_col :: "('a \<Rightarrow> error + 'b) \<Rightarrow> 'a list \<Rightarrow> error + 'b list" where
  "apply_col f [] = Inr []"
| "apply_col f (x # xs) =
     (case f x of
        Inl e \<Rightarrow> Inl e
      | Inr y \<Rightarrow> (case apply_col f xs of Inl e \<Rightarrow> Inl e | Inr ys \<Rightarrow> Inr (y # ys)))"

text \<open>One pass of the loop of line 38: a column is read, cleaned and written back.\<close>

definition clean_column ::
  "(string \<Rightarrow> error + cell) \<Rightarrow> error + bool \<Rightarrow> string \<Rightarrow> (posting \<Rightarrow> cell) \<Rightarrow>
   (cell \<Rightarrow> posting \<Rightarrow> posting) \<Rightarrow> frame \<Rightarrow> error + frame" where
  "clean_column literal_eval empty_truth col get put df =
     (if col \<in> set (columns df) then
        (case apply_col (clean_cell literal_eval empty_truth) (map get (rows df)) of
           Inl e \<Rightarrow> Inl e
         | Inr cs \<Rightarrow> Inr (df\<lparr>rows := map2 put cs (rows df)\<rparr>))
      else Inr df)"

definition bind_frame :: "error + frame \<Rightarrow> (frame \<Rightarrow> error + frame) \<Rightarrow> error + frame" where
  "bind_frame m f = (case m of Inl e \<Rightarrow> Inl e | Inr df \<Rightarrow> f df)"

text \<open>
  \<open>table\<close> is the content of the parquet file with the columns of
  \<open>columns_needed\<close>; the read keeps the rows of the chosen MSA.
\<close>

definition load_msa_data ::
  "(string \<Rightarrow> error + cell) \<Rightarrow> error + bool \<Rightarrow> posting list \<Rightarrow> string \<Rightarrow> error + frame" where
  "load_msa_data literal_eval empty_truth table msa =
     (let df = \<lparr>columns = columns_needed,
                rows = filter (\<lambda>r. MSA_NAME r = Some msa) table\<rparr> in
      bind_frame (clean_column literal_eval empty_truth ''SKILLS_NAME''
                    SKILLS_NAME (\<lambda>c r. r\<lparr>SKILLS_NAME := c\<rparr>) df) (\<lambda>df.
      bind_frame (clean_column literal_eval empty_truth ''SPECIALIZED_SKILLS_NAME''
                    SPECIALIZED_SKILLS_NAME (\<lambda>c r. r\<lparr>SPECIALIZED_SKILLS_NAME := c\<rparr>) df) (\<lambda>df.
      bind_frame (clean_column literal_eval empty_truth ''CERTIFICATIONS_NAME''
                    CERTIFICATIONS_NAME (\<lambda>c r. r\<lparr>CERTIFICATIONS_NAME := c\<rparr>) df) (\<lambda>df.
      clean_column literal_eval empty_truth ''COMMON_SKILLS_NAME''
                    COMMON_SKILLS_NAME (\<lambda>c r. r\<lparr>COMMON_SKILLS_NAME := c\<rparr>) df))))"

subsection \<open>Remote-type normalisation (lines 56 to 58)\<close>

text \<open>\<^verbatim>\<open>Series.replace({'[None]': 'Unspecified'})\<close> rewrites the cells equal to the key.\<close>

definition replace_none :: "string option \<Rightarrow> string option" where
  "replace_none v = (if v = Some ''[None]'' then Some ''Unspecified'' else v)"

text \<open>
  \<^verbatim>\<open>fillna('Unspecified')\<close> puts the text in the place of a missing cell.
\<close>

definition fillna :: "string \<Rightarrow> string option \<Rightarrow> string option" where
  "fillna d v = (case v of None \<Rightarrow> Some d | Some s \<Rightarrow> Some s)"

text \<open>
  Line 57 calls it with \<^verbatim>\<open>inplace=True\<close> on \<^verbatim>\<open>df['REMOTE_TYPE_NAME']\<close>, a column taken out
  of the frame, and assigns nothing. Whether such a chained in-place write reaches the
  frame is the library's: it does in pandas without copy-on-write, and under
  copy-on-write (pandas 3) it fills a temporary and the frame stays as it was. That is
  the parameter \<open>chained_inplace\<close>.
\<close>

definition fillna_inplace :: "bool \<Rightarrow> string \<Rightarrow> string option \<Rightarrow> string option" where
  "fillna_inplace chained_inplace d v = (if chained_inplace then fillna d v else v)"

text \<open>
  \<^verbatim>\<open>astype(str)\<close>: a string stays. What becomes of a missing cell is the library's too:
  its printed name (\<open>None\<close>) in a column of objects, still missing in pandas 3. That is
  the parameter \<open>str_of_missing\<close>.
\<close>

definition astype_str :: "string option \<Rightarrow> string option \<Rightarrow> string option" where
  "astype_str str_of_missing v = (case v of None \<Rightarrow> str_of_missing | Some s \<Rightarrow> Some s)"

text \<open>
  A character of the model is a code point below 256. Those that \<^verbatim>\<open>str.strip()\<close>
  removes: tab, line feed, vertical tab, form feed, carriage return, the four separators
  28 to 31, the space, the next-line character 133 and the no-break space 160.
\<close>

definition is_space :: "char \<Rightarrow> bool" where
  "is_space c = (of_char c \<in> set [9, 10, 11, 12, 13, 28, 29, 30, 31, 32, 133, 160 :: nat])"

definition strip :: "string \<Rightarrow> string" where
  "strip s = rev (dropWhile is_space (rev (dropWhile is_space s)))"

text \<open>Lines 56, 57 and 58 on one cell; \<^verbatim>\<open>.str.strip()\<close> leaves a missing cell missing.\<close>

definition normalize_remote :: "bool \<Rightarrow> string option \<Rightarrow> string option \<Rightarrow> string option" where
  "normalize_remote chained_inplace str_of_missing v =
     map_option strip
       (astype_str str_of_missing
          (fillna_inplace chained_inplace ''Unspecified'' (replace_none v)))"

definition normalize_remote_df :: "bool \<Rightarrow> string option \<Rightarrow> frame \<Rightarrow> frame" where
  "normalize_remote_df chained_inplace str_of_missing df =
     df\<lparr>rows := map (\<lambda>r. r\<lparr>REMOTE_TYPE_NAME :=
                             normalize_remote chained_inplace str_of_missing (REMOTE_TYPE_NAME r)\<rparr>)
                    (rows df)\<rparr>"

subsection \<open>Sidebar controls (lines 55 to 62)\<close>

text \<open>\<^verbatim>\<open>dropna()\<close> keeps the cells that are present, in order.\<close>

fun dropna :: "'a option list \<Rightarrow> 'a list" where
  "dropna [] = []"
| "dropna (None # vs) = dropna vs"
| "dropna (Some x # vs) = x # dropna vs"

text \<open>\<^verbatim>\<open>unique()\<close>: the distinct values in the order of their first appearance.\<close>

definition unique :: "'a list \<Rightarrow> 'a list" where
  "unique xs = rev (remdups (rev xs))"

definition job_type_options :: "frame \<Rightarrow> string list" where
  "job_type_options df = unique (dropna (map EMPLOYMENT_TYPE_NAME (rows df)))"

definition remote_options :: "frame \<Rightarrow> string option list" where
  "remote_options df = unique (map REMOTE_TYPE_NAME (rows df))"

text \<open>\<^verbatim>\<open>Series.max()\<close> is NaN on an empty series.\<close>

definition series_max :: "real list \<Rightarrow> real option" where
  "series_max xs = (case xs of [] \<Rightarrow> None | x # ys \<Rightarrow> Some (fold max ys x))"

text \<open>\<^verbatim>\<open>int(x)\<close> of a float drops the fraction (towards zero); of NaN it raises.\<close>

definition py_int :: "real option \<Rightarrow> error + int" where
  "py_int v =
     (case v of
        None \<Rightarrow> Inl ValueError
      | Some x \<Rightarrow> Inr (if 0 \<le> x then \<lfloor>x\<rfloor> else \<lceil>x\<rceil>))"

text \<open>The upper end of the salary slider: \<^verbatim>\<open>int(df['SALARY_TO'].dropna().max())\<close>.\<close>

definition salary_range_max :: "frame \<Rightarrow> error + int" where
  "salary_range_max df = py_int (series_max (dropna (map SALARY_TO (rows df))))"

subsection \<open>Applying the filters (lines 65 to 75)\<close>

text \<open>\<^verbatim>\<open>isin\<close> on a column of strings: a missing cell is in no list of strings.\<close>

definition isin :: "string option \<Rightarrow> string list \<Rightarrow> bool" where
  "isin v vs = (case v of None \<Rightarrow> False | Some s \<Rightarrow> s \<in> set vs)"

text \<open>A comparison of a float column with a number is false where the cell is NaN.\<close>

definition ge_num :: "real option \<Rightarrow> int \<Rightarrow> bool" where
  "ge_num v b = (case v of None \<Rightarrow> False | Some x \<Rightarrow> of_int b \<le> x)"

definition le_num :: "real option \<Rightarrow> int \<Rightarrow> bool" where
  "le_num v b = (case v of None \<Rightarrow> False | Some x \<Rightarrow> x \<le> of_int b)"

text \<open>The two halves of the mask of lines 71 to 74.\<close>

definition experience_mask :: "int \<Rightarrow> int \<Rightarrow> posting \<Rightarrow> bool" where
  "experience_mask min_exp max_exp r =
     (ge_num (MIN_YEARS_EXPERIENCE r) min_exp \<and> le_num (MAX_YEARS_EXPERIENCE r) max_exp)"

definition salary_mask :: "int \<times> int \<Rightarrow> posting \<Rightarrow> bool" where
  "salary_mask salary_range r =
     (ge_num (SALARY_FROM r) (fst salary_range) \<and> le_num (SALARY_TO r) (snd salary_range))"

definition select_rows :: "(posting \<Rightarrow> bool) \<Rightarrow> frame \<Rightarrow> frame" where
  "select_rows keep df = df\<lparr>rows := filter keep (rows df)\<rparr>"

definition filtered_df ::
  "string list \<Rightarrow> string list \<Rightarrow> int \<Rightarrow> int \<Rightarrow> int \<times> int \<Rightarrow> frame \<Rightarrow> frame" where
  "filtered_df job_type remote min_exp max_exp salary_range df =
     (let f0 = df;
          f1 = (if job_type \<noteq> []
                then select_rows (\<lambda>r. isin (EMPLOYMENT_TYPE_NAME r) job_type) f0 else f0);
          f2 = (if remote \<noteq> []
                then select_rows (\<lambda>r. isin (REMOTE_TYPE_NAME r) remote) f1 else f1)
      in select_rows
           (\<lambda>r. experience_mask min_exp max_exp r \<and> salary_mask salary_range r) f2)"

text \<open>
  Line 62 builds the salary slider from the frame of line 58 before any filter is
  applied: when its upper end raises, the script stops there and nothing below runs.
  The settings are what the user chose in the sidebar.
\<close>

definition filtered_after_sidebar ::
  "string list \<Rightarrow> string list \<Rightarrow> int \<Rightarrow> int \<Rightarrow> int \<times> int \<Rightarrow> frame \<Rightarrow> error + frame" where
  "filtered_after_sidebar job_type remote min_exp max_exp salary_range df =
     (case salary_range_max df of
        Inl e \<Rightarrow> Inl e
      | Inr upper \<Rightarrow> Inr (filtered_df job_type remote min_exp max_exp salary_range df))"

subsection \<open>The summary tables (lines 89 to 164)\<close>

text \<open>
  \<^verbatim>\<open>value_counts()\<close>: the number of cells per distinct value, missing cells left out,
  the most frequent first. Equal counts are kept here in the order of first appearance;
  the library promises no order among them, and no statement below depends on one.
\<close>

definition value_counts :: "'a option list \<Rightarrow> ('a \<times> nat) list" where
  "value_counts vs =
     (let xs = dropna vs in
      sort_key (\<lambda>p. - int (snd p)) (map (\<lambda>x. (x, count_list xs x)) (unique xs)))"

text \<open>\<^verbatim>\<open>nlargest(n)\<close>: the \<open>n\<close> entries of largest count, largest first, earlier entries first
  among equals.\<close>

definition nlargest :: "nat \<Rightarrow> ('a \<times> nat) list \<Rightarrow> ('a \<times> nat) list" where
  "nlargest n s = take n (sort_key (\<lambda>p. - int (snd p)) s)"

datatype chart =
    Bar "(string \<times> nat) list"
  | Histogram "real list"
  | Pie "(string \<times> nat) list"
  | Treemap "(string \<times> string \<times> nat) list"

text \<open>
  Each block of the script is a step from the frame \<^verbatim>\<open>filtered_df\<close> to the charts it
  plots and the frame it leaves behind.
\<close>

definition industry_counts :: "frame \<Rightarrow> (string \<times> nat) list" where
  "industry_counts fdf =
     (let industry_filtered =
            select_rows (\<lambda>r. NAICS2_NAME r \<noteq> Some ''Unclassified Industry'') fdf
      in nlargest 10 (value_counts (map NAICS2_NAME (rows industry_filtered))))"

definition industry_step :: "frame \<Rightarrow> chart list \<times> frame" where
  "industry_step fdf =
     (if ''NAICS2_NAME'' \<in> set (columns fdf) then ([Bar (industry_counts fdf)], fdf)
      else ([], fdf))"

definition soc_counts :: "frame \<Rightarrow> (string \<times> nat) list" where
  "soc_counts fdf =
     (let soc_filtered =
            select_rows (\<lambda>r. SOC_2021_5_NAME r \<noteq> Some ''Unclassified Occupation'') fdf
      in nlargest 10 (value_counts (map SOC_2021_5_NAME (rows soc_filtered))))"

definition soc_step :: "frame \<Rightarrow> chart list \<times> frame" where
  "soc_step fdf =
     (if ''SOC_2021_5_NAME'' \<in> set (columns fdf) then ([Bar (soc_counts fdf)], fdf)
      else ([], fdf))"

text \<open>
  \<^verbatim>\<open>DataFrame.mean(axis=1)\<close> skips missing cells: the mean of the cells that are present,
  NaN when none is.
\<close>

definition row_mean :: "real option list \<Rightarrow> real option" where
  "row_mean vs =
     (let xs = dropna vs in
      if xs = [] then None else Some (sum_list xs / real (length xs)))"

text \<open>Line 116 writes the new column into \<^verbatim>\<open>filtered_df\<close> itself.\<close>

definition assign_Average_Salary :: "frame \<Rightarrow> frame" where
  "assign_Average_Salary fdf =
     \<lparr>columns = (if ''Average_Salary'' \<in> set (columns fdf) then columns fdf
                 else columns fdf @ [''Average_Salary'']),
      rows = map (\<lambda>r. r\<lparr>Average_Salary := row_mean [SALARY_FROM r, SALARY_TO r]\<rparr>)
               (rows fdf)\<rparr>"

text \<open>
  The histogram is drawn from the cells of \<open>Average_Salary\<close> that are present; its thirty
  bins are the plotting library's.
\<close>

definition salary_step :: "frame \<Rightarrow> chart list \<times> frame" where
  "salary_step fdf =
     (if ''SALARY_FROM'' \<in> set (columns fdf) \<and> ''SALARY_TO'' \<in> set (columns fdf) then
        (let fdf' = assign_Average_Salary fdf
         in ([Histogram (dropna (map Average_Salary (rows fdf')))], fdf'))
      else ([], fdf))"

text \<open>
  \<^verbatim>\<open>explode\<close>: a list cell gives one row per element, an empty list gives one row with a
  missing cell, and a cell that is no list stays as it is. The pair \<open>(r, v)\<close> is the row
  \<open>r\<close> with \<open>v\<close> in the exploded column.
\<close>

definition explode_cell :: "cell \<Rightarrow> string option list" where
  "explode_cell c =
     (case c of
        Null \<Rightarrow> [None]
      | Text s \<Rightarrow> [Some s]
      | Seq xs \<Rightarrow> (if xs = [] then [None] else map Some xs))"

definition explode :: "(posting \<Rightarrow> cell) \<Rightarrow> posting list \<Rightarrow> (posting \<times> string option) list" where
  "explode col rs = concat (map (\<lambda>r. map (\<lambda>v. (r, v)) (explode_cell (col r))) rs)"

definition top_skills :: "frame \<Rightarrow> (string \<times> nat) list" where
  "top_skills fdf =
     (let exploded_skills = explode SPECIALIZED_SKILLS_NAME (rows fdf)
      in nlargest 10 (value_counts (map snd exploded_skills)))"

definition skills_step :: "frame \<Rightarrow> chart list \<times> frame" where
  "skills_step fdf =
     (if ''SPECIALIZED_SKILLS_NAME'' \<in> set (columns fdf) then ([Bar (top_skills fdf)], fdf)
      else ([], fdf))"

definition top_companies :: "frame \<Rightarrow> (string \<times> nat) list" where
  "top_companies fdf =
     nlargest 10 (value_counts (map COMPANY_NAME
       (rows (select_rows (\<lambda>r. COMPANY_NAME r \<noteq> Some ''Unclassified'') fdf))))"

definition companies_step :: "frame \<Rightarrow> chart list \<times> frame" where
  "companies_step fdf =
     (if ''COMPANY_NAME'' \<in> set (columns fdf) then ([Bar (top_companies fdf)], fdf)
      else ([], fdf))"

definition edu_counts :: "frame \<Rightarrow> (string \<times> nat) list" where
  "edu_counts fdf = value_counts (map MIN_EDULEVELS_NAME (rows fdf))"

definition edu_step :: "frame \<Rightarrow> chart list \<times> frame" where
  "edu_step fdf =
     (if ''MIN_EDULEVELS_NAME'' \<in> set (columns fdf) then ([Pie (edu_counts fdf)], fdf)
      else ([], fdf))"

text \<open>
  \<^verbatim>\<open>groupby([...]).size()\<close>: the groups whose two keys are both present, with their
  sizes, in ascending order of the keys.
\<close>

fun group_keys :: "(posting \<times> string option) list \<Rightarrow> (string \<times> string) list" where
  "group_keys [] = []"
| "group_keys ((r, v) # es) =
     (case (NAICS2_NAME r, v) of
        (Some i, Some s) \<Rightarrow> (i, s) # group_keys es
      | _ \<Rightarrow> group_keys es)"

definition group_sizes :: "(string \<times> string) list \<Rightarrow> (string \<times> string \<times> nat) list" where
  "group_sizes ks = map (\<lambda>k. (fst k, snd k, count_list ks k)) (sort (remdups ks))"

definition skill_data :: "(posting \<Rightarrow> cell) \<Rightarrow> frame \<Rightarrow> (string \<times> string \<times> nat) list" where
  "skill_data skill_col fdf =
     (let exploded_skills = explode skill_col (rows fdf);
          exploded_skills = filter (\<lambda>e. NAICS2_NAME (fst e) \<noteq> Some ''Unclassified Industry'')
                              exploded_skills
      in group_sizes (group_keys exploded_skills))"

definition treemap_step :: "string \<Rightarrow> (posting \<Rightarrow> cell) \<Rightarrow> frame \<Rightarrow> chart list \<times> frame" where
  "treemap_step name skill_col fdf =
     (if ''NAICS2_NAME'' \<in> set (columns fdf) \<and> name \<in> set (columns fdf)
      then ([Treemap (skill_data skill_col fdf)], fdf)
      else ([], fdf))"

text \<open>The steps in the order of the script; each one sees the frame the one before left.\<close>

definition then_step ::
  "(frame \<Rightarrow> chart list \<times> frame) \<Rightarrow> (frame \<Rightarrow> chart list \<times> frame) \<Rightarrow>
   frame \<Rightarrow> chart list \<times> frame" where
  "then_step f g fdf =
     (let (cs, fdf1) = f fdf; (ds, fdf2) = g fdf1 in (cs @ ds, fdf2))"

definition aggregation_set :: "frame \<Rightarrow> chart list \<times> frame" where
  "aggregation_set =
     then_step industry_step (then_step soc_step (then_step salary_step
       (then_step skills_step (then_step companies_step (then_step edu_step
         (then_step (treemap_step ''SPECIALIZED_SKILLS_NAME'' SPECIALIZED_SKILLS_NAME)
                    (treemap_step ''CERTIFICATIONS_NAME'' CERTIFICATIONS_NAME)))))))"

subsection \<open>The filter as the specification words it\<close>

text \<open>
  A row is kept when it satisfies all five groups: its employment type is one of the
  chosen ones (no restriction when none is chosen), likewise its remote type, its minimum
  experience is at least the floor, its maximum experience at most the ceiling, and its
  salary bounds lie within the range; a missing number fails its test.
\<close>

definition spec_keeps ::
  "string list \<Rightarrow> string list \<Rightarrow> int \<Rightarrow> int \<Rightarrow> int \<times> int \<Rightarrow> posting \<Rightarrow> bool" where
  "spec_keeps employment_types remote_types floor_years ceiling_years salary_range r =
     ((employment_types = [] \<or> EMPLOYMENT_TYPE_NAME r \<in> Some ` set employment_types) \<and>
      (remote_types = [] \<or> REMOTE_TYPE_NAME r \<in> Some ` set remote_types) \<and>
      (case MIN_YEARS_EXPERIENCE r of None \<Rightarrow> False | Some x \<Rightarrow> real_of_int floor_years \<le> x) \<and>
      (case MAX_YEARS_EXPERIENCE r of None \<Rightarrow> False | Some x \<Rightarrow> x \<le> real_of_int ceiling_years) \<and>
      (case SALARY_FROM r of None \<Rightarrow> False | Some x \<Rightarrow> real_of_int (fst salary_range) \<le> x) \<and>
      (case SALARY_TO r of None \<Rightarrow> False | Some x \<Rightarrow> x \<le> real_of_int (snd salary_range)))"

subsection \<open>Rows and frames of the examples\<close>

text \<open>A row with every cell missing.\<close>

definition blank :: posting where
  "blank =
     \<lparr>TITLE_NAME = None, SALARY_FROM = None, SALARY_TO = None, MIN_YEARS_EXPERIENCE = None,
      MAX_YEARS_EXPERIENCE = None, SKILLS_NAME = Null, EMPLOYMENT_TYPE_NAME = None,
      REMOTE_TYPE_NAME = None, COMPANY_NAME = None, MIN_EDULEVELS_NAME = None,
      SOC_2021_5_NAME = None, NAICS2_NAME = None, NAICS4_NAME = None, NAICS6_NAME = None,
      SPECIALIZED_SKILLS_NAME = Null, CERTIFICATIONS_NAME = Null, COMMON_SKILLS_NAME = Null,
      MSA_NAME = None, Average_Salary = None\<rparr>"

text \<open>The three rows of the specification's scenario: industry, company and salary bounds.\<close>

definition scenario_row :: "string \<Rightarrow> string \<Rightarrow> real \<Rightarrow> real \<Rightarrow> posting" where
  "scenario_row industry company lo hi =
     blank\<lparr>NAICS2_NAME := Some industry, COMPANY_NAME := Some company,
           SALARY_FROM := Some lo, SALARY_TO := Some hi\<rparr>"

definition row1 :: posting where
  "row1 = scenario_row ''Tech'' ''Acme'' 50000 70000"

definition row2 :: posting where
  "row2 = scenario_row ''Tech'' ''Acme'' 80000 90000"

definition row3 :: posting where
  "row3 = scenario_row ''Unclassified Industry'' ''Beta'' 40000 40000"

definition scenario_rows :: "posting list" where
  "scenario_rows = [row1, row2, row3]"

text \<open>The scenario's rows carry no experience; the mask of lines 71 and 72 needs one.\<close>

definition with_experience :: "real \<Rightarrow> real \<Rightarrow> posting \<Rightarrow> posting" where
  "with_experience a b r = r\<lparr>MIN_YEARS_EXPERIENCE := Some a, MAX_YEARS_EXPERIENCE := Some b\<rparr>"

text \<open>A posting given by its employment type, remote type, experience and salary bounds.\<close>

definition job ::
  "string \<Rightarrow> string \<Rightarrow> real option \<Rightarrow> real option \<Rightarrow> real option \<Rightarrow> real option \<Rightarrow> posting" where
  "job employment remote min_years max_years lo hi =
     blank\<lparr>EMPLOYMENT_TYPE_NAME := Some employment, REMOTE_TYPE_NAME := Some remote,
           MIN_YEARS_EXPERIENCE := min_years, MAX_YEARS_EXPERIENCE := max_years,
           SALARY_FROM := lo, SALARY_TO := hi\<rparr>"

definition sample_jobs :: "posting list" where
  "sample_jobs =
     [job ''Full-time'' ''Remote'' (Some 2) (Some 5) (Some 50000) (Some 70000),
      job ''Part-time'' ''Remote'' (Some 2) (Some 5) (Some 50000) (Some 70000),
      job ''Full-time'' ''On-site'' (Some 2) (Some 5) (Some 50000) (Some 70000),
      job ''Full-time'' ''Hybrid'' (Some 0) (Some 5) (Some 50000) (Some 70000),
      job ''Full-time'' ''Hybrid'' (Some 1) (Some 10) (Some 40000) (Some 120000),
      job ''Full-time'' ''Hybrid'' (Some 1) (Some 10) None (Some 120000)]"

text \<open>A posting whose industry, occupation and company are the three sentinels.\<close>

definition unclassified :: posting where
  "unclassified =
     blank\<lparr>NAICS2_NAME := Some ''Unclassified Industry'',
           SOC_2021_5_NAME := Some ''Unclassified Occupation'',
           COMPANY_NAME := Some ''Unclassified''\<rparr>"

text \<open>A posting given by its industry, occupation, specialized skills and certifications.\<close>

definition skilled :: "string \<Rightarrow> string \<Rightarrow> string list \<Rightarrow> string list \<Rightarrow> posting" where
  "skilled industry occupation skills certs =
     blank\<lparr>NAICS2_NAME := Some industry, SOC_2021_5_NAME := Some occupation,
           SPECIALIZED_SKILLS_NAME := Seq skills, CERTIFICATIONS_NAME := Seq certs\<rparr>"

definition sample_skilled :: "posting list" where
  "sample_skilled =
     [skilled ''Tech'' ''Data Scientists'' [''Python'', ''SQL''] [''PMP''],
      skilled ''Tech'' ''Data Scientists'' [] [],
      skilled ''Health'' ''Nurses'' [''Python''] [],
      skilled ''Unclassified Industry'' ''Unclassified Occupation''
        [''Python'', ''SQL'', ''Excel''] []]"

definition frame_of :: "posting list \<Rightarrow> frame" where
  "frame_of rs = \<lparr>columns = columns_needed, rows = rs\<rparr>"

text \<open>
  The values of \<^verbatim>\<open>ast.literal_eval\<close> on the two texts the examples decode; it stands for
  the library function in the examples only.
\<close>

definition sample_literal_eval :: "string \<Rightarrow> error + cell" where
  "sample_literal_eval s =
     (if s = ''[]'' then Inr (Seq [])
      else if s = ''['Python', 'SQL']'' then Inr (Seq [''Python'', ''SQL''])
      else Inl SyntaxError)"

section \<open>Properties\<close>

subsection \<open>The filter\<close>

lemma isin_image: "isin v vs \<longleftrightarrow> v \<in> Some ` set vs"
  by (cases v) (auto simp: isin_def)

lemma spec_keeps_split:
  "spec_keeps jt rm lo hi sr r \<longleftrightarrow>
     (jt = [] \<or> isin (EMPLOYMENT_TYPE_NAME r) jt) \<and>
     (rm = [] \<or> isin (REMOTE_TYPE_NAME r) rm) \<and>
     experience_mask lo hi r \<and> salary_mask sr r"
  by (simp add: experience_mask_def salary_mask_def spec_keeps_def ge_num_def le_num_def isin_image)

lemma rows_filtered_df:
  "rows (filtered_df jt rm lo hi sr df) = filter (spec_keeps jt rm lo hi sr) (rows df)"
  by (auto simp: filtered_df_def select_rows_def Let_def spec_keeps_split intro: filter_cong)

lemma columns_filtered_df:
  "columns (filtered_df jt rm lo hi sr df) = columns df"
  by (simp add: filtered_df_def select_rows_def Let_def)

text \<open>
  C1. Whatever the frame and the chosen filters, the rows of \<^verbatim>\<open>filtered_df\<close> are exactly
  the rows that satisfy all five groups of the specification, in their order, and the
  columns are untouched. An empty choice of employment types (or of remote types) imposes
  no restriction: the result is what the other groups alone select. A row with a missing
  experience or salary cell is never in the result.
\<close>

theorem filtered_df_spec:
  "rows (filtered_df jt rm lo hi sr df) = filter (spec_keeps jt rm lo hi sr) (rows df) \<and>
   columns (filtered_df jt rm lo hi sr df) = columns df \<and>
   filtered_df [] rm lo hi sr df =
     select_rows (\<lambda>r. (rm = [] \<or> isin (REMOTE_TYPE_NAME r) rm) \<and>
                       experience_mask lo hi r \<and> salary_mask sr r) df \<and>
   filtered_df jt [] lo hi sr df =
     select_rows (\<lambda>r. (jt = [] \<or> isin (EMPLOYMENT_TYPE_NAME r) jt) \<and>
                       experience_mask lo hi r \<and> salary_mask sr r) df \<and>
   (MIN_YEARS_EXPERIENCE r = None \<or> MAX_YEARS_EXPERIENCE r = None \<or>
    SALARY_FROM r = None \<or> SALARY_TO r = None
      \<longrightarrow> r \<notin> set (rows (filtered_df jt rm lo hi sr df)))"
proof -
  have a: "filtered_df [] rm lo hi sr df =
     select_rows (\<lambda>r. (rm = [] \<or> isin (REMOTE_TYPE_NAME r) rm) \<and>
                       experience_mask lo hi r \<and> salary_mask sr r) df"
    by (auto simp: filtered_df_def select_rows_def Let_def intro: filter_cong)
  have b: "filtered_df jt [] lo hi sr df =
     select_rows (\<lambda>r. (jt = [] \<or> isin (EMPLOYMENT_TYPE_NAME r) jt) \<and>
                       experience_mask lo hi r \<and> salary_mask sr r) df"
    by (auto simp: filtered_df_def select_rows_def Let_def intro: filter_cong)
  have c: "MIN_YEARS_EXPERIENCE r = None \<or> MAX_YEARS_EXPERIENCE r = None \<or>
    SALARY_FROM r = None \<or> SALARY_TO r = None
      \<longrightarrow> r \<notin> set (rows (filtered_df jt rm lo hi sr df))"
    by (auto simp: rows_filtered_df spec_keeps_def)
  show ?thesis
    using a b c rows_filtered_df columns_filtered_df by blast
qed

text \<open>The definitions that the examples unfold.\<close>

lemmas example_defs = job_def blank_def frame_of_def scenario_row_def row1_def row2_def row3_def
  scenario_rows_def with_experience_def unclassified_def skilled_def sample_skilled_def

theorem filtered_df_spec_witness:
  "rows (filtered_df [''Full-time''] [''Remote'', ''Hybrid''] 1 10 (40000, 120000)
      (frame_of sample_jobs)) = [sample_jobs ! 0, sample_jobs ! 4] \<and>
   filtered_df [] [''Remote''] 0 30 (0, 200000) (frame_of sample_jobs) =
     frame_of [sample_jobs ! 0, sample_jobs ! 1] \<and>
   SALARY_FROM (sample_jobs ! 5) = None \<and>
   sample_jobs ! 5 \<notin> set (rows (filtered_df [] [] 0 30 (0, 200000) (frame_of sample_jobs)))"
proof -
  have "rows (filtered_df [''Full-time''] [''Remote'', ''Hybrid''] 1 10 (40000, 120000)
          (frame_of sample_jobs)) =
        filter (spec_keeps [''Full-time''] [''Remote'', ''Hybrid''] 1 10 (40000, 120000))
          (rows (frame_of sample_jobs))"
    using filtered_df_spec [of "[''Full-time'']" "[''Remote'', ''Hybrid'']" 1 10
        "(40000, 120000)" "frame_of sample_jobs" blank]
    by (rule conjunct1)
  also have "\<dots> = [sample_jobs ! 0, sample_jobs ! 4]"
    by (simp add: example_defs sample_jobs_def spec_keeps_def)
  finally have a: "rows (filtered_df [''Full-time''] [''Remote'', ''Hybrid''] 1 10
      (40000, 120000) (frame_of sample_jobs)) = [sample_jobs ! 0, sample_jobs ! 4]" .
  have "filtered_df [] [''Remote''] 0 30 (0, 200000) (frame_of sample_jobs) =
     select_rows (\<lambda>r. ([''Remote''] = [] \<or> isin (REMOTE_TYPE_NAME r) [''Remote'']) \<and>
                       experience_mask 0 30 r \<and> salary_mask (0, 200000) r)
       (frame_of sample_jobs)"
    using filtered_df_spec [of "[]" "[''Remote'']" 0 30 "(0, 200000)" "frame_of sample_jobs" blank]
    by blast
  also have "\<dots> = frame_of [sample_jobs ! 0, sample_jobs ! 1]"
    by (simp add: example_defs sample_jobs_def select_rows_def isin_def experience_mask_def
        salary_mask_def ge_num_def le_num_def)
  finally have b: "filtered_df [] [''Remote''] 0 30 (0, 200000) (frame_of sample_jobs) =
     frame_of [sample_jobs ! 0, sample_jobs ! 1]" .
  have c: "SALARY_FROM (sample_jobs ! 5) = None"
    by (simp add: example_defs sample_jobs_def)
  have d: "sample_jobs ! 5 \<notin>
      set (rows (filtered_df [] [] 0 30 (0, 200000) (frame_of sample_jobs)))"
    using c filtered_df_spec [of "[]" "[]" 0 30 "(0, 200000)" "frame_of sample_jobs"
        "sample_jobs ! 5"]
    by blast
  show ?thesis using a b c d by blast
qed

subsection \<open>The salary scenario\<close>

text \<open>
  C8, as the code has it. Of the scenario's three rows the range (60000, 100000) keeps the
  second one only (80000 and 90000): the first row starts at 50000, below the range, and
  the third at 40000. It is so for the salary half of the mask alone and for the whole
  filter once the rows carry an experience that passes. Both comparisons are inclusive: a
  row from 60000 to 100000 is kept, and in general a row whose bounds are the ends of the
  range.
\<close>

theorem salary_filter_scenario:
  "filter (salary_mask (60000, 100000)) scenario_rows = [row2] \<and>
   rows (filtered_df [] [] 0 30 (60000, 100000)
          (frame_of (map (with_experience 0 0) scenario_rows))) = [with_experience 0 0 row2] \<and>
   salary_mask (60000, 100000) (scenario_row industry company 60000 100000) \<and>
   salary_mask (lo, hi) (r\<lparr>SALARY_FROM := Some (real_of_int lo), SALARY_TO := Some (real_of_int hi)\<rparr>)"
proof -
  have a: "filter (salary_mask (60000, 100000)) scenario_rows = [row2]"
    by (simp add: example_defs salary_mask_def ge_num_def le_num_def)
  have b: "rows (filtered_df [] [] 0 30 (60000, 100000)
          (frame_of (map (with_experience 0 0) scenario_rows))) = [with_experience 0 0 row2]"
    by (simp add: rows_filtered_df example_defs spec_keeps_def)
  have c: "salary_mask (60000, 100000) (scenario_row industry company 60000 100000)"
    by (simp add: example_defs salary_mask_def ge_num_def le_num_def)
  have d: "salary_mask (lo, hi)
      (r\<lparr>SALARY_FROM := Some (real_of_int lo), SALARY_TO := Some (real_of_int hi)\<rparr>)"
    by (simp add: salary_mask_def ge_num_def le_num_def)
  show ?thesis using a b c d by blast
qed

text \<open>C8 as stated fails: the rows kept are not the first row alone.\<close>

theorem salary_filter_scenario_counterexample:
  "filter (salary_mask (60000, 100000)) scenario_rows \<noteq> [row1]"
  by (simp add: example_defs salary_mask_def ge_num_def le_num_def)

subsection \<open>No missing number after the filter\<close>

lemma spec_keeps_numbers:
  "spec_keeps jt rm lo hi sr r \<Longrightarrow>
     \<exists>a b c d. MIN_YEARS_EXPERIENCE r = Some a \<and> MAX_YEARS_EXPERIENCE r = Some b \<and>
       SALARY_FROM r = Some c \<and> SALARY_TO r = Some d"
  by (simp add: spec_keeps_def split: option.splits)

text \<open>
  C10. Every row of \<^verbatim>\<open>filtered_df\<close> has its two experience cells and its two salary
  bounds present, so the mean that line 116 takes for it is the mean of both bounds.
\<close>

theorem filtered_rows_have_numbers:
  "\<forall>r \<in> set (rows (filtered_df jt rm lo hi sr df)).
     MIN_YEARS_EXPERIENCE r \<noteq> None \<and> MAX_YEARS_EXPERIENCE r \<noteq> None \<and>
     SALARY_FROM r \<noteq> None \<and> SALARY_TO r \<noteq> None \<and>
     row_mean [SALARY_FROM r, SALARY_TO r] =
       Some ((the (SALARY_FROM r) + the (SALARY_TO r)) / 2)"
proof
  fix r
  assume "r \<in> set (rows (filtered_df jt rm lo hi sr df))"
  then have "spec_keeps jt rm lo hi sr r"
    by (simp add: rows_filtered_df)
  then obtain a b c d where "MIN_YEARS_EXPERIENCE r = Some a" "MAX_YEARS_EXPERIENCE r = Some b"
      "SALARY_FROM r = Some c" "SALARY_TO r = Some d"
    using spec_keeps_numbers by blast
  then show "MIN_YEARS_EXPERIENCE r \<noteq> None \<and> MAX_YEARS_EXPERIENCE r \<noteq> None \<and>
     SALARY_FROM r \<noteq> None \<and> SALARY_TO r \<noteq> None \<and>
     row_mean [SALARY_FROM r, SALARY_TO r] =
       Some ((the (SALARY_FROM r) + the (SALARY_TO r)) / 2)"
    by (simp add: row_mean_def)
qed

theorem filtered_rows_have_numbers_witness:
  "sample_jobs ! 4 \<in> set (rows (filtered_df [''Full-time''] [''Remote'', ''Hybrid''] 1 10
      (40000, 120000) (frame_of sample_jobs))) \<and>
   MIN_YEARS_EXPERIENCE (sample_jobs ! 4) \<noteq> None \<and>
   MAX_YEARS_EXPERIENCE (sample_jobs ! 4) \<noteq> None \<and>
   SALARY_FROM (sample_jobs ! 4) \<noteq> None \<and> SALARY_TO (sample_jobs ! 4) \<noteq> None \<and>
   row_mean [SALARY_FROM (sample_jobs ! 4), SALARY_TO (sample_jobs ! 4)] = Some 80000"
proof -
  have b: "(the (SALARY_FROM (sample_jobs ! 4)) + the (SALARY_TO (sample_jobs ! 4))) / 2 = 80000"
    by (simp add: example_defs sample_jobs_def)
  have a: "sample_jobs ! 4 \<in> set (rows (filtered_df [''Full-time''] [''Remote'', ''Hybrid''] 1 10
      (40000, 120000) (frame_of sample_jobs)))"
    by (simp add: rows_filtered_df example_defs sample_jobs_def spec_keeps_def)
  show ?thesis
    using a b filtered_rows_have_numbers [of "[''Full-time'']" "[''Remote'', ''Hybrid'']" 1 10
        "(40000, 120000)" "frame_of sample_jobs"]
    by auto
qed

subsection \<open>Remote-type normalisation\<close>

lemma takeWhile_dropWhile_Nil: "takeWhile P (dropWhile P xs) = []"
  by (induction xs) auto

lemma takeWhile_rev_dropWhile:
  "takeWhile P (rev xs) = [] \<Longrightarrow> takeWhile P (rev (dropWhile P xs)) = []"
proof (induction xs)
  case Nil
  then show ?case by simp
next
  case (Cons x xs)
  show ?case
  proof (cases "P x")
    case False
    with Cons.prems show ?thesis by simp
  next
    case True
    have "takeWhile P (rev xs) = []"
    proof (cases "rev xs")
      case Nil
      then show ?thesis by simp
    next
      case (Cons y ys)
      with Cons.prems show ?thesis by (simp split: if_splits)
    qed
    with Cons.IH True show ?thesis by simp
  qed
qed

lemma strip_clean:
  "takeWhile is_space (strip s) = [] \<and> takeWhile is_space (rev (strip s)) = []"
  unfolding strip_def
  by (simp add: takeWhile_dropWhile_Nil takeWhile_rev_dropWhile)

lemma normalize_remote_present:
  "normalize_remote chained_inplace str_of_missing (Some s) =
     Some (strip (if s = ''[None]'' then ''Unspecified'' else s))"
  by (simp add: normalize_remote_def replace_none_def fillna_inplace_def fillna_def
      astype_str_def)

lemma normalize_remote_missing:
  "normalize_remote chained_inplace str_of_missing None =
     (if chained_inplace then Some (strip ''Unspecified'') else map_option strip str_of_missing)"
  by (simp add: normalize_remote_def replace_none_def fillna_inplace_def fillna_def
      astype_str_def)

lemma strip_Unspecified: "strip ''Unspecified'' = ''Unspecified''"
  by (simp add: strip_def is_space_def)

text \<open>
  C5. The text \<open>[None]\<close> becomes \<open>Unspecified\<close> and the cell \<open>Hybrid\<close> between two
  spaces on either side becomes \<open>Hybrid\<close>; every cell that is present becomes the stripped
  form of its text, which neither begins nor ends with white space (the no-break space
  and the next-line character among it). A missing cell becomes \<open>Unspecified\<close> where
  the chained in-place fill of line 57 reaches the frame. Where it does not, the fill is
  lost: the missing cell stays missing, or becomes the text \<open>None\<close> where
  \<^verbatim>\<open>astype(str)\<close> prints a missing cell, and is \<open>Unspecified\<close> in neither case.
\<close>

theorem remote_type_normalized:
  "normalize_remote True str_of_missing None = Some ''Unspecified'' \<and>
   normalize_remote False None None = None \<and>
   normalize_remote False (Some ''None'') None = Some ''None'' \<and>
   normalize_remote chained_inplace str_of_missing (Some ''[None]'') = Some ''Unspecified'' \<and>
   normalize_remote chained_inplace str_of_missing (Some ''  Hybrid  '') = Some ''Hybrid'' \<and>
   normalize_remote chained_inplace str_of_missing
     (Some [CHR 0xA0, CHR ''H'', CHR ''y'', CHR ''b'', CHR ''r'', CHR ''i'', CHR ''d'', CHR 0x85])
     = Some ''Hybrid'' \<and>
   normalize_remote chained_inplace str_of_missing (Some s) =
     Some (strip (if s = ''[None]'' then ''Unspecified'' else s)) \<and>
   takeWhile is_space (strip s) = [] \<and> takeWhile is_space (rev (strip s)) = [] \<and>
   map REMOTE_TYPE_NAME (rows (normalize_remote_df chained_inplace str_of_missing df)) =
     map (\<lambda>r. normalize_remote chained_inplace str_of_missing (REMOTE_TYPE_NAME r)) (rows df)"
proof -
  have a: "normalize_remote True str_of_missing None = Some ''Unspecified''"
    by (simp add: normalize_remote_missing strip_Unspecified)
  have b: "normalize_remote False None None = None"
    by (simp add: normalize_remote_missing)
  have c: "normalize_remote False (Some ''None'') None = Some ''None''"
    by (simp add: normalize_remote_missing strip_def is_space_def)
  have d: "normalize_remote chained_inplace str_of_missing (Some ''[None]'') = Some ''Unspecified''"
    by (simp add: normalize_remote_present strip_Unspecified)
  have e: "normalize_remote chained_inplace str_of_missing (Some ''  Hybrid  '') = Some ''Hybrid''"
    by (simp add: normalize_remote_present strip_def is_space_def)
  have f: "normalize_remote chained_inplace str_of_missing
     (Some [CHR 0xA0, CHR ''H'', CHR ''y'', CHR ''b'', CHR ''r'', CHR ''i'', CHR ''d'', CHR 0x85])
     = Some ''Hybrid''"
    by (simp add: normalize_remote_present strip_def is_space_def)
  have g: "map REMOTE_TYPE_NAME (rows (normalize_remote_df chained_inplace str_of_missing df)) =
     map (\<lambda>r. normalize_remote chained_inplace str_of_missing (REMOTE_TYPE_NAME r)) (rows df)"
    by (simp add: normalize_remote_df_def comp_def)
  show ?thesis
    using a b c d e f g strip_clean [of s]
      normalize_remote_present [of chained_inplace str_of_missing s]
    by simp
qed

subsection \<open>Cleaning a skill cell\<close>

text \<open>
  C6, as the code has it. The lambda of line 40 turns a missing cell into the empty
  sequence and a text into what \<^verbatim>\<open>ast.literal_eval\<close> makes of it. It has no guard for
  a cell that is a sequence already: on a non-empty sequence it raises \<^verbatim>\<open>ValueError\<close>;
  on the empty sequence it returns the empty sequence where the empty array counts as
  false, and raises where taking that truth value raises.
\<close>

theorem clean_cell_cases:
  "clean_cell literal_eval empty_truth Null = Inr (Seq []) \<and>
   clean_cell literal_eval (Inr False) (Seq []) = Inr (Seq []) \<and>
   clean_cell literal_eval (Inl e) (Seq []) = Inl e \<and>
   clean_cell literal_eval empty_truth (Seq (x # xs)) = Inl ValueError \<and>
   clean_cell literal_eval empty_truth (Text s) = literal_eval s"
  by (cases xs) (simp_all add: clean_cell_def notnull_truth_def)

text \<open>
  C6 as stated fails: the cell decoded from a list literal of two skills is not left as
  it is by a second application, which raises.
\<close>

theorem clean_cell_twice_counterexample:
  "clean_cell sample_literal_eval (Inr False) (Text ''['Python', 'SQL']'') =
     Inr (Seq [''Python'', ''SQL'']) \<and>
   clean_cell sample_literal_eval (Inr False) (Seq [''Python'', ''SQL'']) = Inl ValueError"
  by (simp add: clean_cell_def notnull_truth_def sample_literal_eval_def)

subsection \<open>The upper end of the salary slider\<close>

lemma series_max_Max:
  "xs \<noteq> [] \<Longrightarrow> series_max xs = Some (Max (set xs))"
proof (cases xs)
  case Nil
  assume "xs \<noteq> []"
  with Nil show ?thesis by simp
next
  case (Cons y ys)
  then show ?thesis
    using Max.set_eq_fold [of y ys] by (simp add: series_max_def)
qed

text \<open>
  C7, as the code has it. With no \<open>SALARY_TO\<close> cell present the bound is not zero but
  the \<^verbatim>\<open>ValueError\<close> of \<^verbatim>\<open>int\<close> on NaN. Otherwise it is the largest present
  \<open>SALARY_TO\<close> with its fraction dropped, towards zero; that is the value rounded
  down whenever the largest value is not negative.
\<close>

theorem salary_range_max_value:
  "(dropna (map SALARY_TO (rows df)) = [] \<longrightarrow> salary_range_max df = Inl ValueError) \<and>
   (dropna (map SALARY_TO (rows df)) \<noteq> [] \<longrightarrow>
      salary_range_max df =
        Inr (let m = Max (set (dropna (map SALARY_TO (rows df))))
             in if 0 \<le> m then \<lfloor>m\<rfloor> else \<lceil>m\<rceil>)) \<and>
   (dropna (map SALARY_TO (rows df)) \<noteq> [] \<and>
    0 \<le> Max (set (dropna (map SALARY_TO (rows df)))) \<longrightarrow>
      salary_range_max df = Inr \<lfloor>Max (set (dropna (map SALARY_TO (rows df))))\<rfloor>)"
  by (simp add: salary_range_max_def py_int_def series_max_Max Let_def)
     (simp add: series_max_def)

text \<open>
  C7 as stated fails where the largest \<open>SALARY_TO\<close> is negative and not whole: the
  bound is 0, rounding down gives -1.
\<close>

theorem salary_range_max_counterexample:
  "salary_range_max (frame_of [blank\<lparr>SALARY_TO := Some (- (1 / 2))\<rparr>]) = Inr 0 \<and>
   \<lfloor>Max (set (dropna (map SALARY_TO
      (rows (frame_of [blank\<lparr>SALARY_TO := Some (- (1 / 2))\<rparr>])))))\<rfloor> = - 1"
  by (simp add: salary_range_max_def py_int_def series_max_def frame_of_def blank_def
      ceiling_eq_iff floor_eq_iff)

theorem salary_range_max_value_witness:
  "dropna (map SALARY_TO (rows (frame_of [blank]))) = [] \<and>
   salary_range_max (frame_of [blank]) = Inl ValueError \<and>
   dropna (map SALARY_TO (rows (frame_of
     [blank\<lparr>SALARY_TO := Some 70000\<rparr>, blank, blank\<lparr>SALARY_TO := Some (190001 / 2)\<rparr>]))) \<noteq> [] \<and>
   0 \<le> Max (set (dropna (map SALARY_TO (rows (frame_of
     [blank\<lparr>SALARY_TO := Some 70000\<rparr>, blank, blank\<lparr>SALARY_TO := Some (190001 / 2)\<rparr>]))))) \<and>
   salary_range_max (frame_of
     [blank\<lparr>SALARY_TO := Some 70000\<rparr>, blank, blank\<lparr>SALARY_TO := Some (190001 / 2)\<rparr>])
     = Inr 95000"
proof -
  have a: "dropna (map SALARY_TO (rows (frame_of [blank]))) = []"
    by (simp add: frame_of_def blank_def)
  have b: "dropna (map SALARY_TO (rows (frame_of
     [blank\<lparr>SALARY_TO := Some 70000\<rparr>, blank, blank\<lparr>SALARY_TO := Some (190001 / 2)\<rparr>])))
     = [70000, 190001 / 2]"
    by (simp add: frame_of_def blank_def)
  have c: "Max (set [70000, 190001 / 2 :: real]) = 190001 / 2"
    by simp
  have d: "\<lfloor>190001 / 2 :: real\<rfloor> = 95000"
    by (simp add: floor_eq_iff)
  show ?thesis
    using a b c d salary_range_max_value [of "frame_of [blank]"]
      salary_range_max_value [of "frame_of
        [blank\<lparr>SALARY_TO := Some 70000\<rparr>, blank, blank\<lparr>SALARY_TO := Some (190001 / 2)\<rparr>]"]
    by simp
qed

subsection \<open>Counting values\<close>

lemma set_dropna: "set (dropna vs) = {x. Some x \<in> set vs}"
  by (induction vs rule: dropna.induct) auto

lemma set_unique: "set (unique xs) = set xs"
  by (simp add: unique_def)

lemma distinct_unique: "distinct (unique xs)"
  by (simp add: unique_def)

lemma categories_value_counts: "fst ` set (value_counts vs) = {x. Some x \<in> set vs}"
  by (simp add: value_counts_def Let_def set_unique set_dropna image_image)

lemma set_nlargest: "set (nlargest n s) \<subseteq> set s"
  using set_take_subset [of n "sort_key (\<lambda>p. - int (snd p)) s"]
  by (simp add: nlargest_def)

lemma categories_nlargest_value_counts:
  "x \<in> fst ` set (nlargest n (value_counts vs)) \<Longrightarrow> Some x \<in> set vs"
  using set_nlargest [of n "value_counts vs"] categories_value_counts [of vs]
  by blast

text \<open>
  C4. Whatever the filtered frame, the table of top industries has no entry for
  \<open>Unclassified Industry\<close>, the table of top occupations none for
  \<open>Unclassified Occupation\<close>, and the table of top companies none for \<open>Unclassified\<close>.
\<close>

theorem sentinel_never_in_top:
  "''Unclassified Industry'' \<notin> fst ` set (industry_counts fdf) \<and>
   ''Unclassified Occupation'' \<notin> fst ` set (soc_counts fdf) \<and>
   ''Unclassified'' \<notin> fst ` set (top_companies fdf)"
proof -
  have a: "''Unclassified Industry'' \<notin> fst ` set (industry_counts fdf)"
    unfolding industry_counts_def Let_def select_rows_def
    by (auto dest!: categories_nlargest_value_counts)
  have b: "''Unclassified Occupation'' \<notin> fst ` set (soc_counts fdf)"
    unfolding soc_counts_def Let_def select_rows_def
    by (auto dest!: categories_nlargest_value_counts)
  have c: "''Unclassified'' \<notin> fst ` set (top_companies fdf)"
    unfolding top_companies_def Let_def select_rows_def
    by (auto dest!: categories_nlargest_value_counts)
  show ?thesis using a b c by simp
qed

theorem sentinel_never_in_top_witness:
  "industry_counts (frame_of (unclassified # unclassified # unclassified # scenario_rows))
     = [(''Tech'', 2)] \<and>
   ''Unclassified Industry'' \<notin>
     fst ` set (industry_counts (frame_of (unclassified # unclassified # unclassified # scenario_rows))) \<and>
   soc_counts (frame_of [unclassified, unclassified, skilled ''Tech'' ''Data Scientists'' [] []])
     = [(''Data Scientists'', 1)] \<and>
   ''Unclassified Occupation'' \<notin>
     fst ` set (soc_counts (frame_of [unclassified, unclassified, skilled ''Tech'' ''Data Scientists'' [] []])) \<and>
   top_companies (frame_of (unclassified # unclassified # unclassified # scenario_rows))
     = [(''Acme'', 2), (''Beta'', 1)] \<and>
   ''Unclassified'' \<notin>
     fst ` set (top_companies (frame_of (unclassified # unclassified # unclassified # scenario_rows)))"
proof -
  have a: "industry_counts (frame_of (unclassified # unclassified # unclassified # scenario_rows))
     = [(''Tech'', 2)]"
    by (simp add: industry_counts_def select_rows_def value_counts_def nlargest_def unique_def
        example_defs)
  have b: "soc_counts (frame_of [unclassified, unclassified, skilled ''Tech'' ''Data Scientists'' [] []])
     = [(''Data Scientists'', 1)]"
    by (simp add: soc_counts_def select_rows_def value_counts_def nlargest_def unique_def
        example_defs)
  have c: "top_companies (frame_of (unclassified # unclassified # unclassified # scenario_rows))
     = [(''Acme'', 2), (''Beta'', 1)]"
    by (simp add: top_companies_def select_rows_def value_counts_def nlargest_def unique_def
        example_defs)
  show ?thesis
    using a b c
      sentinel_never_in_top [of "frame_of (unclassified # unclassified # unclassified # scenario_rows)"]
      sentinel_never_in_top [of "frame_of [unclassified, unclassified, skilled ''Tech'' ''Data Scientists'' [] []]"]
    by blast
qed

subsection \<open>Exploding a skill column\<close>

lemma sum_list_insort_key:
  "sum_list (map g (insort_key k x xs)) = g x + sum_list (map g xs)"
  for g :: "'a \<Rightarrow> nat"
  by (induction xs) auto

lemma sum_list_sort_key:
  "sum_list (map g (sort_key k xs)) = sum_list (map g xs)" for g :: "'a \<Rightarrow> nat"
  by (induction xs) (simp_all add: sum_list_insort_key)

lemma sum_count_distinct:
  "distinct ys \<Longrightarrow> set ys = set xs \<Longrightarrow> sum_list (map (count_list xs) ys) = length xs"
  using sum_count_set [of xs "set xs"]
  by (simp add: sum_list_distinct_conv_sum_set)

lemma total_value_counts: "sum_list (map snd (value_counts vs)) = length (dropna vs)"
  by (simp add: value_counts_def Let_def sum_list_sort_key comp_def
      sum_count_distinct distinct_unique set_unique)

lemma total_group_sizes: "sum_list (map (\<lambda>t. snd (snd t)) (group_sizes ks)) = length ks"
  by (simp add: group_sizes_def sum_list_sort_key comp_def sum_count_distinct)

lemma length_explode:
  "length (explode col rs) = sum_list (map (\<lambda>r. length (explode_cell (col r))) rs)"
  by (induction rs) (simp_all add: explode_def)

lemma dropna_append: "dropna (us @ vs) = dropna us @ dropna vs"
  by (induction us rule: dropna.induct) simp_all

lemma dropna_map_Some: "dropna (map Some xs) = xs"
  by (induction xs) simp_all

lemma present_explode:
  "length (dropna (map snd (explode col rs))) =
     sum_list (map (\<lambda>r. length (dropna (explode_cell (col r)))) rs)"
  by (induction rs) (simp_all add: explode_def dropna_append comp_def)

lemma explode_cell_Seq:
  "length (explode_cell (Seq xs)) = max 1 (length xs) \<and> dropna (explode_cell (Seq xs)) = xs"
  by (cases xs) (simp_all add: explode_cell_def dropna_map_Some)

lemma explode_Cons:
  "explode col (r # rs) = map (\<lambda>v. (r, v)) (explode_cell (col r)) @ explode col rs"
  by (simp add: explode_def)

lemma group_keys_append: "group_keys (es @ fs) = group_keys es @ group_keys fs"
  by (induction es rule: group_keys.induct) (simp_all split: option.splits)

lemma group_keys_row:
  "length (group_keys (map (\<lambda>v. (r, v)) vs)) =
     (if NAICS2_NAME r = None then 0 else length (dropna vs))"
  by (induction vs rule: dropna.induct) (simp_all split: option.splits)

lemma group_keys_row_None:
  "NAICS2_NAME r = None \<Longrightarrow> group_keys (map (\<lambda>v. (r, v)) vs) = []"
  by (induction vs) simp_all

lemma length_group_keys_explode:
  "length (group_keys (filter (\<lambda>e. NAICS2_NAME (fst e) \<noteq> Some s) (explode col rs))) =
     sum_list (map (\<lambda>r. length (dropna (explode_cell (col r))))
       (filter (\<lambda>r. NAICS2_NAME r \<noteq> None \<and> NAICS2_NAME r \<noteq> Some s) rs))"
proof (induction rs)
  case Nil
  then show ?case by (simp add: explode_def)
next
  case (Cons r rs)
  have "filter (\<lambda>e. NAICS2_NAME (fst e) \<noteq> Some s) (map (\<lambda>v. (r, v)) vs) =
        (if NAICS2_NAME r \<noteq> Some s then map (\<lambda>v. (r, v)) vs else [])"
    for vs :: "string option list"
    by (induction vs) simp_all
  with Cons show ?case
    by (simp add: explode_Cons group_keys_append group_keys_row group_keys_row_None)
qed

text \<open>
  C3, as the code has it. Where every cell of the column is a decoded sequence,
  \<^verbatim>\<open>explode\<close> gives one row per element and one row with a missing skill for each
  empty sequence: the sum over the rows of the larger of one and the sequence's length.
  The rows with a skill number the sum of the lengths; these are the rows that the value
  counts behind the top skills count, and the groups of the tree map count those of
  them whose industry is present and is not the sentinel.
\<close>

theorem explode_row_counts:
  "(\<forall>r \<in> set rs. col r = Seq (skills r)) \<Longrightarrow>
     length (explode col rs) = sum_list (map (\<lambda>r. max 1 (length (skills r))) rs) \<and>
     length (dropna (map snd (explode col rs))) = sum_list (map (\<lambda>r. length (skills r)) rs) \<and>
     sum_list (map snd (value_counts (map snd (explode col rs)))) =
       sum_list (map (\<lambda>r. length (skills r)) rs) \<and>
     sum_list (map (\<lambda>t. snd (snd t)) (skill_data col \<lparr>columns = cs, rows = rs\<rparr>)) =
       sum_list (map (\<lambda>r. length (skills r))
         (filter (\<lambda>r. NAICS2_NAME r \<noteq> None \<and> NAICS2_NAME r \<noteq> Some ''Unclassified Industry'') rs))"
proof -
  assume h: "\<forall>r \<in> set rs. col r = Seq (skills r)"
  have "map (\<lambda>r. length (explode_cell (col r))) rs = map (\<lambda>r. max 1 (length (skills r))) rs"
    using h by (simp add: explode_cell_Seq)
  then have a: "sum_list (map (\<lambda>r. length (explode_cell (col r))) rs) =
      sum_list (map (\<lambda>r. max 1 (length (skills r))) rs)"
    by (rule arg_cong)
  have b: "sum_list (map (\<lambda>r. length (dropna (explode_cell (col r)))) qs) =
      sum_list (map (\<lambda>r. length (skills r)) qs)"
    if "set qs \<subseteq> set rs" for qs
  proof -
    have "map (\<lambda>r. length (dropna (explode_cell (col r)))) qs = map (\<lambda>r. length (skills r)) qs"
      using h that by (auto simp: explode_cell_Seq)
    then show ?thesis by (rule arg_cong)
  qed
  have c: "length (dropna (map snd (explode col rs))) = sum_list (map (\<lambda>r. length (skills r)) rs)"
    using b [of rs] by (simp add: present_explode)
  have d: "sum_list (map (\<lambda>t. snd (snd t)) (skill_data col \<lparr>columns = cs, rows = rs\<rparr>)) =
       sum_list (map (\<lambda>r. length (skills r))
         (filter (\<lambda>r. NAICS2_NAME r \<noteq> None \<and> NAICS2_NAME r \<noteq> Some ''Unclassified Industry'') rs))"
    using b [of "filter (\<lambda>r. NAICS2_NAME r \<noteq> None \<and>
        NAICS2_NAME r \<noteq> Some ''Unclassified Industry'') rs"]
    by (simp add: skill_data_def total_group_sizes length_group_keys_explode)
  show ?thesis
    using a c d by (simp add: length_explode total_value_counts)
qed

text \<open>
  C3 as stated fails: one row with an empty sequence explodes to one row, not to none.
\<close>

theorem explode_row_counts_counterexample:
  "SPECIALIZED_SKILLS_NAME (skilled ''Tech'' ''Data Scientists'' [] []) = Seq [] \<and>
   explode SPECIALIZED_SKILLS_NAME [skilled ''Tech'' ''Data Scientists'' [] []] =
     [(skilled ''Tech'' ''Data Scientists'' [] [], None)] \<and>
   length (explode SPECIALIZED_SKILLS_NAME [skilled ''Tech'' ''Data Scientists'' [] []]) = 1"
  by (simp add: explode_def explode_cell_def example_defs)

theorem explode_row_counts_witness:
  "map SPECIALIZED_SKILLS_NAME sample_skilled =
     map Seq [[''Python'', ''SQL''], [], [''Python''], [''Python'', ''SQL'', ''Excel'']] \<and>
   length (explode SPECIALIZED_SKILLS_NAME sample_skilled) = 7 \<and>
   length (dropna (map snd (explode SPECIALIZED_SKILLS_NAME sample_skilled))) = 6 \<and>
   sum_list (map snd (value_counts (map snd (explode SPECIALIZED_SKILLS_NAME sample_skilled)))) = 6 \<and>
   sum_list (map (\<lambda>t. snd (snd t))
     (skill_data SPECIALIZED_SKILLS_NAME \<lparr>columns = columns_needed, rows = sample_skilled\<rparr>)) = 3 \<and>
   skill_data SPECIALIZED_SKILLS_NAME (frame_of sample_skilled) =
     [(''Health'', ''Python'', 1), (''Tech'', ''Python'', 1), (''Tech'', ''SQL'', 1)] \<and>
   top_skills (frame_of sample_skilled) = [(''Python'', 3), (''SQL'', 2), (''Excel'', 1)]"
proof -
  let ?skills = "\<lambda>r. case SPECIALIZED_SKILLS_NAME r of Seq xs \<Rightarrow> xs | _ \<Rightarrow> []"
  have h: "\<forall>r \<in> set sample_skilled. SPECIALIZED_SKILLS_NAME r = Seq (?skills r)"
    by (simp add: example_defs)
  have a: "map SPECIALIZED_SKILLS_NAME sample_skilled =
     map Seq [[''Python'', ''SQL''], [], [''Python''], [''Python'', ''SQL'', ''Excel'']]"
    by (simp add: example_defs)
  have b: "sum_list (map (\<lambda>r. max 1 (length (?skills r))) sample_skilled) = 7"
    by (simp add: example_defs)
  have c: "sum_list (map (\<lambda>r. length (?skills r)) sample_skilled) = 6"
    by (simp add: example_defs)
  have d: "sum_list (map (\<lambda>r. length (?skills r))
         (filter (\<lambda>r. NAICS2_NAME r \<noteq> None \<and> NAICS2_NAME r \<noteq> Some ''Unclassified Industry'')
            sample_skilled)) = 3"
    by (simp add: example_defs)
  have e: "skill_data SPECIALIZED_SKILLS_NAME (frame_of sample_skilled) =
     [(''Health'', ''Python'', 1), (''Tech'', ''Python'', 1), (''Tech'', ''SQL'', 1)]"
    by (simp add: skill_data_def group_sizes_def explode_def explode_cell_def example_defs)
  have f: "top_skills (frame_of sample_skilled) = [(''Python'', 3), (''SQL'', 2), (''Excel'', 1)]"
    by (simp add: top_skills_def value_counts_def nlargest_def unique_def explode_def
        explode_cell_def example_defs)
  show ?thesis
    using a b c d e f
      explode_row_counts [of sample_skilled SPECIALIZED_SKILLS_NAME ?skills columns_needed, OF h]
    by simp
qed

subsection \<open>The salary distribution\<close>

lemma dropna_all_None: "\<forall>v \<in> set vs. v = None \<Longrightarrow> dropna vs = []"
  by (induction vs rule: dropna.induct) simp_all



lemma row_mean_cases:
  "row_mean [Some a, Some b] = Some ((a + b) / 2) \<and>
   row_mean [Some a, None] = Some a \<and>
   row_mean [None, Some b] = Some b \<and>
   row_mean [None, None] = None"
  by (simp add: row_mean_def)


lemma filtered_after_sidebar_Inl:
  "filtered_after_sidebar jt rm lo hi sr df = Inl e \<longleftrightarrow>
     dropna (map SALARY_TO (rows df)) = [] \<and> e = ValueError"
  by (cases "dropna (map SALARY_TO (rows df))")
     (auto simp: filtered_after_sidebar_def salary_range_max_def series_max_def py_int_def)






subsection \<open>What the steps do to the frame\<close>

lemma rows_assign:
  "rows (assign_Average_Salary fdf) =
     map (\<lambda>r. r\<lparr>Average_Salary := row_mean [SALARY_FROM r, SALARY_TO r]\<rparr>) (rows fdf)"
  by (simp add: assign_Average_Salary_def)

lemma columns_assign:
  "set (columns (assign_Average_Salary fdf)) = insert ''Average_Salary'' (set (columns fdf))"
  by (auto simp: assign_Average_Salary_def)

lemma snds_explode_update:
  "map snd (explode col (map (\<lambda>r. r\<lparr>Average_Salary := m r\<rparr>) rs)) = map snd (explode col rs)"
  if "\<And>r a. col (r\<lparr>Average_Salary := a\<rparr>) = col r"
  using that by (induction rs) (simp_all add: explode_Cons explode_def comp_def)

lemma filter_row:
  "filter (\<lambda>e. NAICS2_NAME (fst e) \<noteq> Some s) (map (\<lambda>v. (r, v)) vs) =
     (if NAICS2_NAME r \<noteq> Some s then map (\<lambda>v. (r, v)) vs else [])"
  for vs :: "string option list"
  by (induction vs) simp_all

lemma group_keys_update:
  "group_keys (map (\<lambda>v. (r\<lparr>Average_Salary := a\<rparr>, v)) vs) = group_keys (map (\<lambda>v. (r, v)) vs)"
  by (induction vs rule: dropna.induct) (simp_all split: option.splits)

lemma group_keys_row_update:
  "group_keys (filter (\<lambda>e. NAICS2_NAME (fst e) \<noteq> Some s)
       (map (\<lambda>v. (r\<lparr>Average_Salary := a\<rparr>, v)) vs)) =
   group_keys (filter (\<lambda>e. NAICS2_NAME (fst e) \<noteq> Some s) (map (\<lambda>v. (r, v)) vs))"
  by (simp add: filter_row group_keys_update)

lemma group_keys_explode_update:
  "group_keys (filter (\<lambda>e. NAICS2_NAME (fst e) \<noteq> Some s)
       (explode col (map (\<lambda>r. r\<lparr>Average_Salary := m r\<rparr>) rs))) =
   group_keys (filter (\<lambda>e. NAICS2_NAME (fst e) \<noteq> Some s) (explode col rs))"
  if "\<And>r a. col (r\<lparr>Average_Salary := a\<rparr>) = col r"
  using that
  by (induction rs) (simp_all add: explode_Cons group_keys_append group_keys_row_update)

lemma top_skills_assign: "top_skills (assign_Average_Salary fdf) = top_skills fdf"
  by (simp add: top_skills_def rows_assign snds_explode_update)

lemma top_companies_assign: "top_companies (assign_Average_Salary fdf) = top_companies fdf"
  by (simp add: top_companies_def select_rows_def rows_assign filter_map comp_def)

lemma edu_counts_assign: "edu_counts (assign_Average_Salary fdf) = edu_counts fdf"
  by (simp add: edu_counts_def rows_assign comp_def)

lemma skill_data_assign:
  "skill_data SPECIALIZED_SKILLS_NAME (assign_Average_Salary fdf) =
     skill_data SPECIALIZED_SKILLS_NAME fdf \<and>
   skill_data CERTIFICATIONS_NAME (assign_Average_Salary fdf) =
     skill_data CERTIFICATIONS_NAME fdf"
  by (simp add: skill_data_def rows_assign group_keys_explode_update)

lemma later_steps_assign:
  "fst (skills_step (assign_Average_Salary fdf)) = fst (skills_step fdf) \<and>
   fst (companies_step (assign_Average_Salary fdf)) = fst (companies_step fdf) \<and>
   fst (edu_step (assign_Average_Salary fdf)) = fst (edu_step fdf) \<and>
   fst (treemap_step ''SPECIALIZED_SKILLS_NAME'' SPECIALIZED_SKILLS_NAME
          (assign_Average_Salary fdf)) =
     fst (treemap_step ''SPECIALIZED_SKILLS_NAME'' SPECIALIZED_SKILLS_NAME fdf) \<and>
   fst (treemap_step ''CERTIFICATIONS_NAME'' CERTIFICATIONS_NAME (assign_Average_Salary fdf)) =
     fst (treemap_step ''CERTIFICATIONS_NAME'' CERTIFICATIONS_NAME fdf)"
  by (simp add: skills_step_def companies_step_def edu_step_def treemap_step_def
      columns_assign top_skills_assign top_companies_assign edu_counts_assign skill_data_assign)

lemma snd_steps:
  "snd (industry_step fdf) = fdf \<and> snd (soc_step fdf) = fdf \<and> snd (skills_step fdf) = fdf \<and>
   snd (companies_step fdf) = fdf \<and> snd (edu_step fdf) = fdf \<and>
   snd (treemap_step name col fdf) = fdf"
  by (simp add: industry_step_def soc_step_def skills_step_def companies_step_def edu_step_def
      treemap_step_def)

lemma snd_salary_step:
  "snd (salary_step fdf) =
     (if ''SALARY_FROM'' \<in> set (columns fdf) \<and> ''SALARY_TO'' \<in> set (columns fdf)
      then assign_Average_Salary fdf else fdf)"
  by (simp add: salary_step_def Let_def)

lemma then_step_fst:
  "fst (then_step f g fdf) = fst (f fdf) @ fst (g (snd (f fdf)))"
  by (simp add: then_step_def split: prod.splits)

lemma then_step_snd:
  "snd (then_step f g fdf) = snd (g (snd (f fdf)))"
  by (simp add: then_step_def split: prod.splits)

lemma later_steps_salary:
  "fst (skills_step (snd (salary_step fdf))) = fst (skills_step fdf) \<and>
   fst (companies_step (snd (salary_step fdf))) = fst (companies_step fdf) \<and>
   fst (edu_step (snd (salary_step fdf))) = fst (edu_step fdf) \<and>
   fst (treemap_step ''SPECIALIZED_SKILLS_NAME'' SPECIALIZED_SKILLS_NAME
          (snd (salary_step fdf))) =
     fst (treemap_step ''SPECIALIZED_SKILLS_NAME'' SPECIALIZED_SKILLS_NAME fdf) \<and>
   fst (treemap_step ''CERTIFICATIONS_NAME'' CERTIFICATIONS_NAME (snd (salary_step fdf))) =
     fst (treemap_step ''CERTIFICATIONS_NAME'' CERTIFICATIONS_NAME fdf)"
  using later_steps_assign [of fdf] by (simp add: snd_salary_step)

lemma aggregation_set_charts:
  "fst (aggregation_set fdf) =
     fst (industry_step fdf) @ fst (soc_step fdf) @ fst (salary_step fdf) @
     fst (skills_step fdf) @ fst (companies_step fdf) @ fst (edu_step fdf) @
     fst (treemap_step ''SPECIALIZED_SKILLS_NAME'' SPECIALIZED_SKILLS_NAME fdf) @
     fst (treemap_step ''CERTIFICATIONS_NAME'' CERTIFICATIONS_NAME fdf) \<and>
   snd (aggregation_set fdf) = snd (salary_step fdf)"
  using later_steps_salary [of fdf]
  by (simp add: aggregation_set_def then_step_fst then_step_snd snd_steps)

text \<open>
  C9, as the code has it. Every step but the salary distribution hands on the frame it
  was given. The salary distribution writes the column \<open>Average_Salary\<close> into the frame:
  it adds that one column name, keeps the rows in number and order and every other cell
  of them as it was. The steps that come after it read other columns only, so each of
  their charts is the one the frame before the write would have given: all the charts of
  a run are functions of the frame that the filter left.
\<close>

theorem aggregations_frame_effect:
  "snd (industry_step fdf) = fdf \<and> snd (soc_step fdf) = fdf \<and> snd (skills_step fdf) = fdf \<and>
   snd (companies_step fdf) = fdf \<and> snd (edu_step fdf) = fdf \<and>
   snd (treemap_step name col fdf) = fdf \<and>
   snd (salary_step fdf) =
     (if ''SALARY_FROM'' \<in> set (columns fdf) \<and> ''SALARY_TO'' \<in> set (columns fdf)
      then assign_Average_Salary fdf else fdf) \<and>
   map (\<lambda>r. r\<lparr>Average_Salary := a\<rparr>) (rows (snd (salary_step fdf))) =
     map (\<lambda>r. r\<lparr>Average_Salary := a\<rparr>) (rows fdf) \<and>
   set (columns fdf) \<subseteq> set (columns (snd (salary_step fdf))) \<and>
   set (columns (snd (salary_step fdf))) \<subseteq> insert ''Average_Salary'' (set (columns fdf)) \<and>
   fst (skills_step (snd (salary_step fdf))) = fst (skills_step fdf) \<and>
   fst (companies_step (snd (salary_step fdf))) = fst (companies_step fdf) \<and>
   fst (edu_step (snd (salary_step fdf))) = fst (edu_step fdf) \<and>
   fst (treemap_step ''SPECIALIZED_SKILLS_NAME'' SPECIALIZED_SKILLS_NAME
          (snd (salary_step fdf))) =
     fst (treemap_step ''SPECIALIZED_SKILLS_NAME'' SPECIALIZED_SKILLS_NAME fdf) \<and>
   fst (treemap_step ''CERTIFICATIONS_NAME'' CERTIFICATIONS_NAME (snd (salary_step fdf))) =
     fst (treemap_step ''CERTIFICATIONS_NAME'' CERTIFICATIONS_NAME fdf) \<and>
   fst (aggregation_set fdf) =
     fst (industry_step fdf) @ fst (soc_step fdf) @ fst (salary_step fdf) @
     fst (skills_step fdf) @ fst (companies_step fdf) @ fst (edu_step fdf) @
     fst (treemap_step ''SPECIALIZED_SKILLS_NAME'' SPECIALIZED_SKILLS_NAME fdf) @
     fst (treemap_step ''CERTIFICATIONS_NAME'' CERTIFICATIONS_NAME fdf) \<and>
   snd (aggregation_set fdf) = snd (salary_step fdf)"
proof -
  have rws: "map (\<lambda>r. r\<lparr>Average_Salary := a\<rparr>) (rows (snd (salary_step fdf))) =
     map (\<lambda>r. r\<lparr>Average_Salary := a\<rparr>) (rows fdf)"
    by (simp add: snd_salary_step rows_assign comp_def)
  have cls: "set (columns fdf) \<subseteq> set (columns (snd (salary_step fdf))) \<and>
     set (columns (snd (salary_step fdf))) \<subseteq> insert ''Average_Salary'' (set (columns fdf))"
    by (auto simp: snd_salary_step columns_assign)
  show ?thesis
    using rws cls snd_steps [of fdf name col] snd_salary_step [of fdf]
      later_steps_salary [of fdf] aggregation_set_charts [of fdf]
    by simp
qed

text \<open>
  C9 as stated fails: the salary distribution does not leave the frame as it was; after
  it the frame has the column \<open>Average_Salary\<close>, with the row's mean in it.
\<close>

theorem aggregations_frame_effect_counterexample:
  "snd (salary_step (frame_of [row1])) \<noteq> frame_of [row1] \<and>
   columns (frame_of [row1]) = columns_needed \<and>
   columns (snd (salary_step (frame_of [row1]))) = columns_needed @ [''Average_Salary''] \<and>
   map Average_Salary (rows (frame_of [row1])) = [None] \<and>
   map Average_Salary (rows (snd (salary_step (frame_of [row1])))) = [Some 60000]"
  by (simp add: salary_step_def assign_Average_Salary_def row_mean_def example_defs
      columns_needed_def)

theorem aggregations_frame_effect_witness:
  "fst (aggregation_set (frame_of sample_skilled)) =
     [Bar [(''Tech'', 2), (''Health'', 1)],
      Bar [(''Data Scientists'', 2), (''Nurses'', 1)],
      Histogram [],
      Bar [(''Python'', 3), (''SQL'', 2), (''Excel'', 1)],
      Bar [],
      Pie [],
      Treemap [(''Health'', ''Python'', 1), (''Tech'', ''Python'', 1), (''Tech'', ''SQL'', 1)],
      Treemap [(''Tech'', ''PMP'', 1)]] \<and>
   columns (snd (aggregation_set (frame_of sample_skilled))) =
     columns_needed @ [''Average_Salary'']"
proof -
  have c: "columns (frame_of sample_skilled) = columns_needed"
    by (simp add: frame_of_def)
  have i: "fst (industry_step (frame_of sample_skilled)) = [Bar [(''Tech'', 2), (''Health'', 1)]]"
    by (simp add: industry_step_def c columns_needed_def)
       (simp add: industry_counts_def select_rows_def value_counts_def nlargest_def unique_def
         example_defs)
  have s: "fst (soc_step (frame_of sample_skilled)) =
      [Bar [(''Data Scientists'', 2), (''Nurses'', 1)]]"
    by (simp add: soc_step_def c columns_needed_def)
       (simp add: soc_counts_def select_rows_def value_counts_def nlargest_def unique_def
         example_defs)
  have h: "fst (salary_step (frame_of sample_skilled)) = [Histogram []]"
    by (simp add: salary_step_def c columns_needed_def)
       (simp add: assign_Average_Salary_def row_mean_def example_defs)
  have k: "fst (skills_step (frame_of sample_skilled)) =
      [Bar [(''Python'', 3), (''SQL'', 2), (''Excel'', 1)]]"
    by (simp add: skills_step_def c columns_needed_def)
       (simp add: top_skills_def value_counts_def nlargest_def unique_def explode_def
         explode_cell_def example_defs)
  have m: "fst (companies_step (frame_of sample_skilled)) = [Bar []]"
    by (simp add: companies_step_def c columns_needed_def)
       (simp add: top_companies_def select_rows_def value_counts_def nlargest_def unique_def
         example_defs)
  have e: "fst (edu_step (frame_of sample_skilled)) = [Pie []]"
    by (simp add: edu_step_def c columns_needed_def)
       (simp add: edu_counts_def value_counts_def unique_def example_defs)
  have t: "fst (treemap_step ''SPECIALIZED_SKILLS_NAME'' SPECIALIZED_SKILLS_NAME
        (frame_of sample_skilled)) =
      [Treemap [(''Health'', ''Python'', 1), (''Tech'', ''Python'', 1), (''Tech'', ''SQL'', 1)]]"
    by (simp add: treemap_step_def c columns_needed_def)
       (simp add: skill_data_def group_sizes_def explode_def explode_cell_def example_defs)
  have u: "fst (treemap_step ''CERTIFICATIONS_NAME'' CERTIFICATIONS_NAME
        (frame_of sample_skilled)) = [Treemap [(''Tech'', ''PMP'', 1)]]"
    by (simp add: treemap_step_def c columns_needed_def)
       (simp add: skill_data_def group_sizes_def explode_def explode_cell_def example_defs)
  have v: "columns (snd (salary_step (frame_of sample_skilled))) =
      columns_needed @ [''Average_Salary'']"
    by (simp add: salary_step_def c columns_needed_def)
       (simp add: assign_Average_Salary_def frame_of_def columns_needed_def)
  show ?thesis
    using aggregations_frame_effect [of "frame_of sample_skilled"] i s h k m e t u v
    by simp
qed

end
